theory Spec2Isabelle
  imports Main "HOL-Library.Word" "HOL-Library.AList"
begin

section \<open>The wallet helper of the test wallet (src/helpers/wallet.ts)\<close>

text \<open>
  The module keeps seven module-level variables and calls four collaborators: the
  key-value storage (\<^verbatim>\<open>./local\<close>), the chain table (\<^verbatim>\<open>./utilities\<close>), the ethers
  library and the STARK signature module (\<^verbatim>\<open>./starkware\<close>). The embedding passes the
  module variables, the storage, the random source, the console and the list of
  transactions handed to the network around as one record. A function that can throw
  returns a pair: \<open>Inl\<close> of the error or \<open>Inr\<close> of the value, and the state reached at
  that moment (assignments made before a throw stay made). Every \<^verbatim>\<open>async\<close> function
  is run to completion by one caller at a time. \<^verbatim>\<open>getStarkKey\<close> (lines 106 to 111)
  reads the key pair through \<^verbatim>\<open>getStakwareKeyPair\<close> and changes nothing more; it is
  left out.
\<close>

subsection \<open>Values\<close>

type_synonym byte = "8 word"

text \<open>A value of type \<^verbatim>\<open>any\<close>: the primitives a transaction field or a message can hold.\<close>

datatype jsval = JUndefined | JNull | JBool bool | JNum int | JStr string

text \<open>An object is the list of its own properties, in insertion order.\<close>

type_synonym jsobject = "(string \<times> jsval) list"

datatype error =
    UnknownDataKey string  \<comment> \<open>\<^verbatim>\<open>throw new Error(`Unknown data key: ${key}`)\<close>\<close>
  | TypeError string       \<comment> \<open>a member read or a method call on a value that has none\<close>
  | Upstream string        \<comment> \<open>whatever a collaborator throws\<close>

record Wallet =
  privateKey :: string
  address :: string

record ChainData =
  rpc_url :: string

record TransactionResponse =
  hash :: string

record Signature =
  sig_r :: string
  sig_s :: string
  sig_recoveryParam :: int

text \<open>JavaScript's truthiness, as \<^verbatim>\<open>if (x)\<close> and \<^verbatim>\<open>!x\<close> read it.\<close>

fun truthy :: "jsval \<Rightarrow> bool" where
  "truthy JUndefined = False"
| "truthy JNull = False"
| "truthy (JBool b) = b"
| "truthy (JNum n) = (n \<noteq> 0)"
| "truthy (JStr s) = (s \<noteq> [])"

text \<open>\<^verbatim>\<open>obj.k\<close>: the property, or \<^verbatim>\<open>undefined\<close> when the object has none.\<close>

definition get_prop :: "jsobject \<Rightarrow> string \<Rightarrow> jsval" where
  "get_prop obj k = (case map_of obj k of None \<Rightarrow> JUndefined | Some v \<Rightarrow> v)"

text \<open>\<^verbatim>\<open>k in obj\<close>, on own properties.\<close>

definition has_key :: "string \<Rightarrow> jsobject \<Rightarrow> bool" where
  "has_key k obj = (k \<in> fst ` set obj)"

text \<open>\<^verbatim>\<open>obj.k = v\<close> and \<^verbatim>\<open>delete obj.k\<close>.\<close>

definition set_prop :: "string \<Rightarrow> jsval \<Rightarrow> jsobject \<Rightarrow> jsobject" where
  "set_prop k v obj = AList.update k v obj"

definition delete_prop :: "string \<Rightarrow> jsobject \<Rightarrow> jsobject" where
  "delete_prop k obj = AList.delete k obj"

text \<open>\<^verbatim>\<open>String.prototype.toLowerCase\<close> on the ASCII letters an address is made of.\<close>

definition lower_char :: "char \<Rightarrow> char" where
  "lower_char c =
     (if (65::nat) \<le> of_char c \<and> of_char c \<le> (90::nat)
      then char_of (of_char c + (32::nat)) else c)"

definition toLowerCase :: "string \<Rightarrow> string" where
  "toLowerCase s = map lower_char s"

text \<open>
  The decimal digits of an integer, with a minus sign below zero: what the template
  literal \<^verbatim>\<open>${index}\<close> prints for a safe integer, one of magnitude below \<open>2^53\<close>.
\<close>

definition digit_char :: "nat \<Rightarrow> char" where
  "digit_char d = char_of (48 + d)"

fun nat_toString :: "nat \<Rightarrow> string" where
  "nat_toString n =
     (if n < 10 then [digit_char n] else nat_toString (n div 10) @ [digit_char (n mod 10)])"

declare nat_toString.simps [simp del]

definition decimal :: "int \<Rightarrow> string" where
  "decimal i = (if i < 0 then CHR ''-'' # nat_toString (nat (- i)) else nat_toString (nat i))"

text \<open>
  \<^verbatim>\<open>ethers.utils.hexlify\<close> of a byte array: \<^verbatim>\<open>0x\<close> and two lower-case hexadecimal
  digits for each byte.
\<close>

definition hex_digit :: "nat \<Rightarrow> char" where
  "hex_digit d = (if d < 10 then char_of (48 + d) else char_of (87 + d))"

definition hexlify :: "byte list \<Rightarrow> string" where
  "hexlify bs = ''0x'' @ concat (map (\<lambda>b. [hex_digit (unat b div 16), hex_digit (unat b mod 16)]) bs)"

subsection \<open>The module state and the collaborators\<close>

record 'kp state =
  path :: "string option"
  entropy :: "string option"
  mnemonic :: "string option"
  activeIndex :: int
  activeChainId :: int
  wallet :: "Wallet option"
  starkKeyPair :: "'kp option"
  localStorage :: "string \<rightharpoonup> string"
  rand :: "nat \<Rightarrow> byte"
  rand_pos :: nat
  console :: "string list"
  sent :: "(Wallet \<times> jsobject) list"

text \<open>
  The constants of \<^verbatim>\<open>./constants\<close> and the functions of the collaborators are
  parameters: none of them is in the module. A function that can throw returns a sum.
  \<^item> \<open>getChainData\<close> is \<^verbatim>\<open>getChainData(chainId)\<close> of \<^verbatim>\<open>./utilities\<close>.
  \<^item> \<open>entropyToMnemonic\<close> is \<^verbatim>\<open>ethers.utils.HDNode.entropyToMnemonic\<close> and
    \<open>fromMnemonic\<close> is \<^verbatim>\<open>ethers.Wallet.fromMnemonic(mnemonic, path)\<close>.
  \<^item> \<open>connect w url\<close> is \<^verbatim>\<open>new ethers.providers.JsonRpcProvider(url)\<close> followed by
    \<^verbatim>\<open>w.connect(provider)\<close>.
  \<^item> \<open>keyFromPrivate\<close> is \<^verbatim>\<open>starkwareCrypto.ec.keyFromPrivate(privateKey, "hex")\<close>;
    \<open>stark_sign\<close> and \<open>stark_verify\<close> are \<^verbatim>\<open>starkwareCrypto.sign\<close> and
    \<^verbatim>\<open>starkwareCrypto.verify\<close>.
  \<^item> \<open>wallet_sendTransaction\<close>, \<open>wallet_sign\<close> and \<open>wallet_signMessage\<close> are the methods
    \<^verbatim>\<open>sendTransaction\<close>, \<^verbatim>\<open>sign\<close> and \<^verbatim>\<open>signMessage\<close> of an \<^verbatim>\<open>ethers.Wallet\<close>; the
    last receives bytes (\<open>Inl\<close>) or the message as it came (\<open>Inr\<close>).
  \<^item> \<open>newSigningKey\<close> is \<^verbatim>\<open>new ethers.utils.SigningKey(privateKey)\<close>, \<open>signDigest\<close> its
    method, and \<open>arrayify\<close>, \<open>joinSignature\<close> and \<open>isHexString\<close> are the functions of
    \<^verbatim>\<open>ethers.utils\<close>.
  \<^item> \<open>Number_toString\<close> is the engine's \<^verbatim>\<open>Number::toString\<close>, asked only for integers
    outside the safe range, which it prints rounded or in exponent notation
    (\<^verbatim>\<open>9223372036854776000\<close> for \<open>2^63\<close>, \<^verbatim>\<open>1e+21\<close> for \<open>10^21\<close>).
  A \<^verbatim>\<open>number\<close> that stands for an account index, a chain or a count is an \<open>int\<close>.
\<close>

record ('kp, 'sg) ext =
  STANDARD_PATH :: string
  ENTROPY_KEY :: string
  MNEMONIC_KEY :: string
  DEFAULT_ACTIVE_INDEX :: int
  DEFAULT_CHAIN_ID :: int
  getChainData :: "int \<Rightarrow> error + ChainData"
  entropyToMnemonic :: "string \<Rightarrow> error + string"
  fromMnemonic :: "string \<Rightarrow> string \<Rightarrow> error + Wallet"
  connect :: "Wallet \<Rightarrow> string \<Rightarrow> error + Wallet"
  keyFromPrivate :: "string \<Rightarrow> 'kp"
  wallet_sendTransaction :: "Wallet \<Rightarrow> jsobject \<Rightarrow> error + TransactionResponse"
  wallet_sign :: "Wallet \<Rightarrow> jsobject option \<Rightarrow> error + string"
  newSigningKey :: "string \<Rightarrow> error + string"
  arrayify :: "jsval \<Rightarrow> error + byte list"
  signDigest :: "string \<Rightarrow> byte list \<Rightarrow> error + Signature"
  joinSignature :: "Signature \<Rightarrow> error + string"
  isHexString :: "jsval \<Rightarrow> bool"
  wallet_signMessage :: "Wallet \<Rightarrow> byte list + jsval \<Rightarrow> error + string"
  stark_sign :: "'kp \<Rightarrow> jsval \<Rightarrow> error + 'sg"
  stark_verify :: "'kp \<Rightarrow> jsval \<Rightarrow> jsval \<Rightarrow> error + bool"
  Number_toString :: "int \<Rightarrow> string"

text \<open>
  The template literal \<^verbatim>\<open>${index}\<close> (line 65): the decimal digits of a safe integer,
  and what the engine prints of any other.
\<close>

definition number_toString :: "('kp, 'sg) ext \<Rightarrow> int \<Rightarrow> string" where
  "number_toString x i =
     (if - (2 ^ 53) < i \<and> i < 2 ^ 53 then decimal i else Number_toString x i)"

text \<open>The module as it is when loaded (lines 13 to 19), over a given storage and random source.\<close>

definition init_state :: "('kp, 'sg) ext \<Rightarrow> (string \<rightharpoonup> string) \<Rightarrow> (nat \<Rightarrow> byte) \<Rightarrow> 'kp state" where
  "init_state x store rnd =
     \<lparr> path = None, entropy = None, mnemonic = None,
       activeIndex = DEFAULT_ACTIVE_INDEX x, activeChainId = DEFAULT_CHAIN_ID x,
       wallet = None, starkKeyPair = None,
       localStorage = store, rand = rnd, rand_pos = 0, console = [], sent = [] \<rparr>"

text \<open>
  Modelled from the spec: \<^verbatim>\<open>getLocal\<close> and \<^verbatim>\<open>setLocal\<close> of \<^verbatim>\<open>./local\<close>, which is not
  among the sources. The spec gives the storage as a key-value collaborator,
  \<^verbatim>\<open>get(key) -> string|null\<close> and \<^verbatim>\<open>set(key, value) -> void\<close>.
\<close>

definition getLocal :: "string \<Rightarrow> 'kp state \<Rightarrow> string option" where
  "getLocal key s = localStorage s key"

definition setLocal :: "string \<Rightarrow> string \<Rightarrow> 'kp state \<Rightarrow> 'kp state" where
  "setLocal key v s = s\<lparr>localStorage := (localStorage s)(key \<mapsto> v)\<rparr>"

text \<open>\<^verbatim>\<open>ethers.utils.randomBytes(n)\<close>: the next \<open>n\<close> bytes of the random source.\<close>

definition randomBytes :: "nat \<Rightarrow> 'kp state \<Rightarrow> byte list \<times> 'kp state" where
  "randomBytes n s = (map (rand s) [rand_pos s ..< rand_pos s + n], s\<lparr>rand_pos := rand_pos s + n\<rparr>)"

definition console_error :: "string \<Rightarrow> 'kp state \<Rightarrow> 'kp state" where
  "console_error msg s = s\<lparr>console := console s @ [msg]\<rparr>"

subsection \<open>The functions of the module\<close>

text \<open>Lines 21 to 26.\<close>

definition isWalletActive :: "'kp state \<Rightarrow> Wallet option" where
  "isWalletActive s = (case wallet s of None \<Rightarrow> wallet s | Some w \<Rightarrow> None)"

text \<open>Lines 64 to 67.\<close>

definition generatePath :: "('kp, 'sg) ext \<Rightarrow> int \<Rightarrow> 'kp state \<Rightarrow> string \<times> 'kp state" where
  "generatePath x index s =
     (let p = STANDARD_PATH x @ ''/'' @ number_toString x index
      in (p, s\<lparr>path := Some p\<rparr>))"

text \<open>Lines 69 to 72.\<close>

definition generateEntropy :: "'kp state \<Rightarrow> string \<times> 'kp state" where
  "generateEntropy s =
     (case randomBytes 16 s of (bs, s1) \<Rightarrow>
        (hexlify bs, s1\<lparr>entropy := Some (hexlify bs)\<rparr>))"

text \<open>
  Lines 46 to 62, 74 to 77 and 90 to 92. \<^verbatim>\<open>getData\<close> calls \<^verbatim>\<open>generateMnemonic\<close>, which
  calls \<^verbatim>\<open>getEntropy\<close>, which calls \<^verbatim>\<open>getData\<close> again. \<^verbatim>\<open>!value\<close> holds of \<^verbatim>\<open>null\<close>
  and of the empty string.
\<close>

function getData :: "('kp, 'sg) ext \<Rightarrow> string \<Rightarrow> 'kp state \<Rightarrow> (error + string) \<times> 'kp state"
  and generateMnemonic :: "('kp, 'sg) ext \<Rightarrow> 'kp state \<Rightarrow> (error + string) \<times> 'kp state"
  and getEntropy :: "('kp, 'sg) ext \<Rightarrow> 'kp state \<Rightarrow> (error + string) \<times> 'kp state"
where
  "getData x key s =
     (case getLocal key s of
        Some (c # cs) \<Rightarrow> (Inr (c # cs), s)
      | _ \<Rightarrow>
          (if key = ENTROPY_KEY x then
             (case generateEntropy s of (v, s1) \<Rightarrow> (Inr v, setLocal key v s1))
           else if key = MNEMONIC_KEY x then
             (case generateMnemonic x s of
                (Inl e, s1) \<Rightarrow> (Inl e, s1)
              | (Inr v, s1) \<Rightarrow> (Inr v, setLocal key v s1))
           else (Inl (UnknownDataKey key), s)))"
| "generateMnemonic x s =
     (case getEntropy x s of
        (Inl e, s1) \<Rightarrow> (Inl e, s1)
      | (Inr en, s1) \<Rightarrow>
          (case entropyToMnemonic x en of
             Inl e \<Rightarrow> (Inl e, s1)
           | Inr m \<Rightarrow> (Inr m, s1\<lparr>mnemonic := Some m\<rparr>)))"
| "getEntropy x s = getData x (ENTROPY_KEY x) s"
  by pat_completeness auto
termination
  by (relation "measure (\<lambda>a. case a of
         Inl (x, key, s) \<Rightarrow> (if key = ENTROPY_KEY x then 0 else 3)
       | Inr (Inl (x, s)) \<Rightarrow> 2
       | Inr (Inr (x, s)) \<Rightarrow> 1)") auto

declare getData.simps [simp del] generateMnemonic.simps [simp del] getEntropy.simps [simp del]

text \<open>Lines 94 to 96.\<close>

definition getMnemonic :: "('kp, 'sg) ext \<Rightarrow> 'kp state \<Rightarrow> (error + string) \<times> 'kp state" where
  "getMnemonic x s = getData x (MNEMONIC_KEY x) s"

text \<open>
  Lines 79 to 82. The assignment is to the module-level \<^verbatim>\<open>wallet\<close>; the arguments are
  evaluated left to right.
\<close>

definition generateWallet :: "('kp, 'sg) ext \<Rightarrow> int \<Rightarrow> 'kp state \<Rightarrow> (error + Wallet) \<times> 'kp state" where
  "generateWallet x index s =
     (case getMnemonic x s of
        (Inl e, s1) \<Rightarrow> (Inl e, s1)
      | (Inr m, s1) \<Rightarrow>
          (case generatePath x index s1 of (p, s2) \<Rightarrow>
             (case fromMnemonic x m p of
                Inl e \<Rightarrow> (Inl e, s2)
              | Inr w \<Rightarrow> (Inr w, s2\<lparr>wallet := Some w\<rparr>))))"

text \<open>
  Lines 36 to 44. The \<^verbatim>\<open>wallet\<close> declared in the body shadows the module's variable
  only inside \<^verbatim>\<open>getAccounts\<close>; \<^verbatim>\<open>generateWallet\<close> still assigns the module's. The
  loop runs from \<open>i\<close> while \<open>i < count\<close>.
\<close>

function getAccounts_loop ::
  "('kp, 'sg) ext \<Rightarrow> int \<Rightarrow> int \<Rightarrow> string list \<Rightarrow> 'kp state \<Rightarrow> (error + string list) \<times> 'kp state"
where
  "getAccounts_loop x count i accounts s =
     (if i < count then
        (case generateWallet x i s of
           (Inl e, s1) \<Rightarrow> (Inl e, s1)
         | (Inr w, s1) \<Rightarrow> getAccounts_loop x count (i + 1) (accounts @ [address w]) s1)
      else (Inr accounts, s))"
  by pat_completeness auto
termination
  by (relation "measure (\<lambda>(x, count, i, accounts, s). nat (count - i))") auto

declare getAccounts_loop.simps [simp del]

definition getAccounts :: "('kp, 'sg) ext \<Rightarrow> int option \<Rightarrow> 'kp state \<Rightarrow> (error + string list) \<times> 'kp state" where
  "getAccounts x count s =
     getAccounts_loop x (case count of None \<Rightarrow> 2 | Some c \<Rightarrow> c) 0 [] s"

text \<open>
  Lines 28 to 34, 84 to 88 and 113 to 126. \<^verbatim>\<open>getWallet\<close> calls \<^verbatim>\<open>initWallet\<close>, which
  calls \<^verbatim>\<open>updateWallet\<close>, which calls \<^verbatim>\<open>generateStarkwareKeyPair\<close>, which calls
  \<^verbatim>\<open>getWallet()\<close> with both arguments undefined (\<open>None\<close>). \<^verbatim>\<open>activeIndex === index\<close>
  is false of an undefined \<^verbatim>\<open>index\<close>. The provider is built from the chain's URL and
  \<^verbatim>\<open>wallet.connect(provider)\<close> is called on the module's wallet; what it returns is
  dropped (line 124).
\<close>

function getWallet ::
    "('kp, 'sg) ext \<Rightarrow> int option \<Rightarrow> int option \<Rightarrow> 'kp state \<Rightarrow> (error + Wallet) \<times> 'kp state"
  and initWallet ::
    "('kp, 'sg) ext \<Rightarrow> int option \<Rightarrow> int option \<Rightarrow> 'kp state \<Rightarrow> (error + Wallet) \<times> 'kp state"
  and updateWallet ::
    "('kp, 'sg) ext \<Rightarrow> int \<Rightarrow> int \<Rightarrow> 'kp state \<Rightarrow> (error + Wallet) \<times> 'kp state"
  and generateStarkwareKeyPair ::
    "('kp, 'sg) ext \<Rightarrow> 'kp state \<Rightarrow> (error + 'kp) \<times> 'kp state"
where
  "getWallet x index chainId s =
     (case wallet s of
        None \<Rightarrow> initWallet x index chainId s
      | Some w \<Rightarrow>
          (if Some (activeIndex s) = index \<or> Some (activeChainId s) = chainId
           then initWallet x index chainId s
           else (Inr w, s)))"
| "initWallet x index chainId s =
     updateWallet x
       (case index of None \<Rightarrow> DEFAULT_ACTIVE_INDEX x | Some i \<Rightarrow> i)
       (case chainId of None \<Rightarrow> DEFAULT_CHAIN_ID x | Some c \<Rightarrow> c) s"
| "updateWallet x index chainId s =
     (case getChainData x chainId of
        Inl e \<Rightarrow> (Inl e, s\<lparr>activeIndex := index, activeChainId := chainId\<rparr>)
      | Inr cd \<Rightarrow>
          (case generateWallet x index (s\<lparr>activeIndex := index, activeChainId := chainId\<rparr>) of
             (Inl e, s2) \<Rightarrow> (Inl e, s2)
           | (Inr w, s2) \<Rightarrow>
               (case generateStarkwareKeyPair x s2 of
                  (Inl e, s3) \<Rightarrow> (Inl e, s3)
                | (Inr kp, s3) \<Rightarrow>
                    (case wallet s3 of
                       None \<Rightarrow> (Inl (TypeError ''wallet is null''), s3)
                     | Some w3 \<Rightarrow>
                         (case connect x w3 (rpc_url cd) of
                            Inl e \<Rightarrow> (Inl e, s3)
                          | Inr connected \<Rightarrow> (Inr w3, s3))))))"
| "generateStarkwareKeyPair x s =
     (case getWallet x None None s of
        (Inl e, s1) \<Rightarrow> (Inl e, s1)
      | (Inr w, s1) \<Rightarrow>
          (Inr (keyFromPrivate x (privateKey w)),
           s1\<lparr>starkKeyPair := Some (keyFromPrivate x (privateKey w))\<rparr>))"
  by pat_completeness auto

termination
  by (relation "measure (\<lambda>a. case a of
         Inl (Inl (x, index, chainId, s)) \<Rightarrow>
           (if wallet s = None \<or> Some (activeIndex s) = index \<or> Some (activeChainId s) = chainId
            then 6 else 0)
       | Inl (Inr (x, index, chainId, s)) \<Rightarrow> 5
       | Inr (Inl (x, index, chainId, s)) \<Rightarrow> 4
       | Inr (Inr (x, s)) \<Rightarrow> (if wallet s = None then 7 else 1))")
     (auto simp: generateWallet_def generatePath_def Let_def split: prod.splits sum.splits)

declare getWallet.simps [simp del] initWallet.simps [simp del] updateWallet.simps [simp del]
  generateStarkwareKeyPair.simps [simp del]

text \<open>Lines 98 to 104.\<close>

definition getStakwareKeyPair :: "('kp, 'sg) ext \<Rightarrow> 'kp state \<Rightarrow> (error + 'kp) \<times> 'kp state" where
  "getStakwareKeyPair x s =
     (case starkKeyPair s of
        None \<Rightarrow> generateStarkwareKeyPair x s
      | Some keyPair \<Rightarrow> (Inr keyPair, s))"

text \<open>
  Lines 128 to 150. The result is \<open>None\<close> for \<^verbatim>\<open>null\<close>. \<^verbatim>\<open>transaction.from.toLowerCase()\<close>
  is a type error when \<^verbatim>\<open>from\<close> is truthy and not a string. The transaction handed to
  \<^verbatim>\<open>wallet.sendTransaction\<close> is appended to \<open>sent\<close>.
\<close>

definition sendTransaction ::
  "('kp, 'sg) ext \<Rightarrow> jsobject \<Rightarrow> 'kp state \<Rightarrow> (error + string option) \<times> 'kp state" where
  "sendTransaction x transaction s =
     (case wallet s of
        None \<Rightarrow> (Inr None, console_error ''No Active Account'' s)
      | Some w \<Rightarrow>
          (case (if truthy (get_prop transaction ''from'') then
                   (case get_prop transaction ''from'' of
                      JStr f \<Rightarrow> Inr (toLowerCase f \<noteq> toLowerCase (address w))
                    | _ \<Rightarrow> Inl (TypeError ''transaction.from.toLowerCase is not a function''))
                 else Inr False) of
             Inl e \<Rightarrow> (Inl e, s)
           | Inr mismatch \<Rightarrow>
               (let s1 = (if mismatch
                          then console_error ''Transaction request From doesn't match active account'' s
                          else s);
                    t1 = (if truthy (get_prop transaction ''from'')
                          then delete_prop ''from'' transaction else transaction);
                    t2 = (if has_key ''gas'' t1
                          then delete_prop ''gas'' (set_prop ''gasLimit'' (get_prop t1 ''gas'') t1)
                          else t1);
                    s2 = s1\<lparr>sent := sent s1 @ [(w, t2)]\<rparr>
                in case wallet_sendTransaction x w t2 of
                     Inl e \<Rightarrow> (Inl e, s2)
                   | Inr result \<Rightarrow> (Inr (Some (hash result)), s2))))"

text \<open>Lines 152 to 163. \<open>data\<close> is \<open>None\<close> for \<^verbatim>\<open>null\<close> or \<^verbatim>\<open>undefined\<close>.\<close>

definition signTransaction ::
  "('kp, 'sg) ext \<Rightarrow> jsobject option \<Rightarrow> 'kp state \<Rightarrow> (error + string option) \<times> 'kp state" where
  "signTransaction x data s =
     (case wallet s of
        None \<Rightarrow> (Inr None, console_error ''No Active Account'' s)
      | Some w \<Rightarrow>
          (let data1 = (case data of
                          None \<Rightarrow> None
                        | Some d \<Rightarrow>
                            (if truthy (get_prop d ''from'') then Some (delete_prop ''from'' d)
                             else Some d))
           in case wallet_sign x w data1 of
                Inl e \<Rightarrow> (Inl e, s)
              | Inr result \<Rightarrow> (Inr (Some result), s)))"

text \<open>Lines 165 to 175.\<close>

definition signMessage ::
  "('kp, 'sg) ext \<Rightarrow> jsval \<Rightarrow> 'kp state \<Rightarrow> (error + string option) \<times> 'kp state" where
  "signMessage x data s =
     (case wallet s of
        None \<Rightarrow> (Inr None, console_error ''No Active Account'' s)
      | Some w \<Rightarrow>
          (case newSigningKey x (privateKey w) of
             Inl e \<Rightarrow> (Inl e, s)
           | Inr signingKey \<Rightarrow>
               (case arrayify x data of
                  Inl e \<Rightarrow> (Inl e, s)
                | Inr bytes \<Rightarrow>
                    (case signDigest x signingKey bytes of
                       Inl e \<Rightarrow> (Inl e, s)
                     | Inr sigParams \<Rightarrow>
                         (case joinSignature x sigParams of
                            Inl e \<Rightarrow> (Inl e, s)
                          | Inr result \<Rightarrow> (Inr (Some result), s))))))"

text \<open>
  Lines 177 to 187. \<^verbatim>\<open>wallet.signMessage\<close> receives the bytes (\<open>Inl\<close>) when
  \<^verbatim>\<open>isHexString\<close> holds of the message, and the message itself (\<open>Inr\<close>) otherwise.
\<close>

definition signPersonalMessage ::
  "('kp, 'sg) ext \<Rightarrow> jsval \<Rightarrow> 'kp state \<Rightarrow> (error + string option) \<times> 'kp state" where
  "signPersonalMessage x message s =
     (case wallet s of
        None \<Rightarrow> (Inr None, console_error ''No Active Account'' s)
      | Some w \<Rightarrow>
          (case (if isHexString x message
                 then (case arrayify x message of Inl e \<Rightarrow> Inl e | Inr bytes \<Rightarrow> Inr (Inl bytes))
                 else Inr (Inr message)) of
             Inl e \<Rightarrow> (Inl e, s)
           | Inr arg \<Rightarrow>
               (case wallet_signMessage x w arg of
                  Inl e \<Rightarrow> (Inl e, s)
                | Inr result \<Rightarrow> (Inr (Some result), s))))"

text \<open>Lines 189 to 197. Neither function has a branch that returns \<^verbatim>\<open>null\<close>.\<close>

definition starkwareSign ::
  "('kp, 'sg) ext \<Rightarrow> jsval \<Rightarrow> 'kp state \<Rightarrow> (error + 'sg option) \<times> 'kp state" where
  "starkwareSign x msg s =
     (case getStakwareKeyPair x s of
        (Inl e, s1) \<Rightarrow> (Inl e, s1)
      | (Inr keyPair, s1) \<Rightarrow>
          (case stark_sign x keyPair msg of
             Inl e \<Rightarrow> (Inl e, s1)
           | Inr sg \<Rightarrow> (Inr (Some sg), s1)))"

definition starkwareVerify ::
  "('kp, 'sg) ext \<Rightarrow> jsval \<Rightarrow> jsval \<Rightarrow> 'kp state \<Rightarrow> (error + bool option) \<times> 'kp state" where
  "starkwareVerify x msg sg s =
     (case getStakwareKeyPair x s of
        (Inl e, s1) \<Rightarrow> (Inl e, s1)
      | (Inr keyPair, s1) \<Rightarrow>
          (case stark_verify x keyPair msg sg of
             Inl e \<Rightarrow> (Inl e, s1)
           | Inr ok \<Rightarrow> (Inr (Some ok), s1)))"

subsection \<open>A small environment to run the module in\<close>

text \<open>
  The examples below run the module against stand-ins for the collaborators: the
  constants have the values a wallet of this kind uses, the chain table knows chains 1
  and 3, and every derivation and signature is a string that spells out what it was
  made from. \<open>sample_isHexString\<close> and \<open>sample_arrayify\<close> read \<^verbatim>\<open>0x\<close> and
  hexadecimal digits, two to a byte.
\<close>

definition hex_value :: "char \<Rightarrow> nat option" where
  "hex_value c =
     (if (48::nat) \<le> of_char c \<and> of_char c \<le> (57::nat) then Some (of_char c - 48)
      else if (97::nat) \<le> of_char c \<and> of_char c \<le> (102::nat) then Some (of_char c - 87)
      else if (65::nat) \<le> of_char c \<and> of_char c \<le> (70::nat) then Some (of_char c - 55)
      else None)"

fun parse_hex_pairs :: "string \<Rightarrow> byte list option" where
  "parse_hex_pairs [] = Some []"
| "parse_hex_pairs [c] = None"
| "parse_hex_pairs (a # b # rest) =
     (case (hex_value a, hex_value b, parse_hex_pairs rest) of
        (Some h, Some l, Some bs) \<Rightarrow> Some (of_nat (16 * h + l) # bs)
      | _ \<Rightarrow> None)"

fun sample_isHexString :: "jsval \<Rightarrow> bool" where
  "sample_isHexString (JStr s) =
     (take 2 s = ''0x'' \<and> list_all (\<lambda>c. hex_value c \<noteq> None) (drop 2 s))"
| "sample_isHexString v = False"

fun sample_arrayify :: "jsval \<Rightarrow> error + byte list" where
  "sample_arrayify (JStr s) =
     (if take 2 s = ''0x'' then
        (case parse_hex_pairs (if odd (length s) then CHR ''0'' # drop 2 s else drop 2 s) of
           None \<Rightarrow> Inl (Upstream ''invalid hexidecimal string'')
         | Some bs \<Rightarrow> Inr bs)
      else Inl (Upstream ''hex string must have 0x prefix''))"
| "sample_arrayify v = Inl (Upstream ''invalid arrayify value'')"

fun sample_signMessage :: "Wallet \<Rightarrow> byte list + jsval \<Rightarrow> error + string" where
  "sample_signMessage w (Inl bs) = Inr (''personal('' @ privateKey w @ '', bytes '' @ hexlify bs @ '')'')"
| "sample_signMessage w (Inr (JStr m)) = Inr (''personal('' @ privateKey w @ '', text '' @ m @ '')'')"
| "sample_signMessage w (Inr v) = Inl (Upstream ''invalid message'')"

definition sample_ext :: "(string, string) ext" where
  "sample_ext =
     \<lparr> STANDARD_PATH = ''m/44'/60'/0'/0'',
       ENTROPY_KEY = ''ENTROPY'',
       MNEMONIC_KEY = ''MNEMONIC'',
       DEFAULT_ACTIVE_INDEX = 0,
       DEFAULT_CHAIN_ID = 1,
       getChainData = (\<lambda>c. if c = 1 \<or> c = 3
                           then Inr \<lparr>rpc_url = ''https://rpc/'' @ decimal c\<rparr>
                           else Inl (Upstream ''ChainId missing or not supported'')),
       entropyToMnemonic = (\<lambda>e. Inr (''words('' @ e @ '')'')),
       fromMnemonic = (\<lambda>m p. Inr \<lparr>privateKey = ''key('' @ p @ '')'', address = ''address('' @ p @ '')''\<rparr>),
       connect = (\<lambda>w url. Inr w),
       keyFromPrivate = (\<lambda>k. ''stark('' @ k @ '')''),
       wallet_sendTransaction = (\<lambda>w t. Inr \<lparr>hash = ''0xhash''\<rparr>),
       wallet_sign = (\<lambda>w d. Inr (''signed('' @ privateKey w @ '')'')),
       newSigningKey = (\<lambda>k. Inr k),
       arrayify = sample_arrayify,
       signDigest = (\<lambda>k bs. Inr \<lparr>sig_r = k, sig_s = hexlify bs, sig_recoveryParam = 0\<rparr>),
       joinSignature = (\<lambda>sg. Inr (sig_r sg @ sig_s sg)),
       isHexString = sample_isHexString,
       wallet_signMessage = sample_signMessage,
       stark_sign = (\<lambda>kp m. Inr (''starksig('' @ kp @ '')'')),
       stark_verify = (\<lambda>kp m sg. Inr True),
       Number_toString = (\<lambda>i. ''1e+21'') \<rparr>"

definition zero_bytes :: "nat \<Rightarrow> byte" where
  "zero_bytes n = 0"

text \<open>The module freshly loaded over an empty storage.\<close>

definition sample_state :: "string state" where
  "sample_state = init_state sample_ext Map.empty zero_bytes"

text \<open>The state after \<^verbatim>\<open>getWallet(0, 1)\<close> from there.\<close>

definition sample_cached :: "string state" where
  "sample_cached = snd (getWallet sample_ext (Some 0) (Some 1) sample_state)"

section \<open>Properties\<close>

subsection \<open>The storage and the secret material cache\<close>

lemma hexlify_nonempty: "hexlify bs \<noteq> []"
  by (simp add: hexlify_def)

lemma getData_unfold:
  "getData x key s =
     (if getLocal key s = None \<or> getLocal key s = Some []
      then
        (if key = ENTROPY_KEY x then
           (case generateEntropy s of (v, s1) \<Rightarrow> (Inr v, setLocal key v s1))
         else if key = MNEMONIC_KEY x then
           (case generateMnemonic x s of
              (Inl e, s1) \<Rightarrow> (Inl e, s1)
            | (Inr v, s1) \<Rightarrow> (Inr v, setLocal key v s1))
         else (Inl (UnknownDataKey key), s))
      else (Inr (the (getLocal key s)), s))"
  by (simp add: getData.simps split: option.split list.split)

lemma getData_cached:
  "getLocal key s = Some v \<Longrightarrow> v \<noteq> [] \<Longrightarrow> getData x key s = (Inr v, s)"
  by (simp add: getData_unfold)

lemma getEntropy_fresh:
  "getLocal (ENTROPY_KEY x) s = None \<or> getLocal (ENTROPY_KEY x) s = Some [] \<Longrightarrow>
   getEntropy x s =
     (Inr (fst (generateEntropy s)),
      setLocal (ENTROPY_KEY x) (fst (generateEntropy s)) (snd (generateEntropy s)))"
  by (auto simp add: getEntropy.simps getData_unfold split: prod.splits)

lemma getLocal_setLocal: "getLocal k (setLocal k' v s) = (if k = k' then Some v else getLocal k s)"
  by (simp add: getLocal_def setLocal_def)

lemma fst_generateEntropy_nonempty: "fst (generateEntropy s) \<noteq> []"
  by (simp add: generateEntropy_def hexlify_nonempty split: prod.splits)

lemma getEntropy_twice: "getEntropy x (snd (getEntropy x s)) = getEntropy x s"
proof (cases "getLocal (ENTROPY_KEY x) s = None \<or> getLocal (ENTROPY_KEY x) s = Some []")
  case True
  let ?e = "fst (generateEntropy s)"
  let ?s1 = "setLocal (ENTROPY_KEY x) ?e (snd (generateEntropy s))"
  have first: "getEntropy x s = (Inr ?e, ?s1)"
    using True by (rule getEntropy_fresh)
  have "getData x (ENTROPY_KEY x) ?s1 = (Inr ?e, ?s1)"
    by (rule getData_cached) (simp_all add: getLocal_setLocal fst_generateEntropy_nonempty)
  then have "getEntropy x ?s1 = (Inr ?e, ?s1)"
    by (simp add: getEntropy.simps)
  with first show ?thesis by simp
next
  case False
  then obtain v where "getLocal (ENTROPY_KEY x) s = Some v" "v \<noteq> []"
    by auto
  then have "getEntropy x s = (Inr v, s)"
    by (simp add: getEntropy.simps getData_cached)
  then show ?thesis by simp
qed

lemma getEntropy_total:
  "\<exists>e s1. getEntropy x s = (Inr e, s1) \<and> e \<noteq> [] \<and> getLocal (ENTROPY_KEY x) s1 = Some e
     \<and> (\<forall>k. k \<noteq> ENTROPY_KEY x \<longrightarrow> getLocal k s1 = getLocal k s)"
proof (cases "getLocal (ENTROPY_KEY x) s = None \<or> getLocal (ENTROPY_KEY x) s = Some []")
  case True
  show ?thesis
    unfolding getEntropy_fresh [OF True]
    by (simp add: getLocal_setLocal fst_generateEntropy_nonempty)
       (simp add: getLocal_def generateEntropy_def randomBytes_def)
next
  case False
  then obtain v where "getLocal (ENTROPY_KEY x) s = Some v" "v \<noteq> []"
    by auto
  then show ?thesis
    by (simp add: getEntropy.simps getData_cached)
qed

lemma getEntropy_cached:
  "getLocal (ENTROPY_KEY x) s = Some e \<Longrightarrow> e \<noteq> [] \<Longrightarrow> getEntropy x s = (Inr e, s)"
  by (simp add: getEntropy.simps getData_cached)

lemma getMnemonic_fresh:
  assumes "MNEMONIC_KEY x \<noteq> ENTROPY_KEY x"
    and "getLocal (MNEMONIC_KEY x) s = None \<or> getLocal (MNEMONIC_KEY x) s = Some []"
    and "getEntropy x s = (Inr e, s1)"
  shows "getMnemonic x s =
     (case entropyToMnemonic x e of
        Inl err \<Rightarrow> (Inl err, s1)
      | Inr m \<Rightarrow> (Inr m, setLocal (MNEMONIC_KEY x) m (s1\<lparr>mnemonic := Some m\<rparr>)))"
  using assms
  by (auto simp add: getMnemonic_def getData_unfold [of x "MNEMONIC_KEY x"] generateMnemonic.simps
      split: sum.splits)

lemma getMnemonic_twice: "getMnemonic x (snd (getMnemonic x s)) = getMnemonic x s"
proof (cases "MNEMONIC_KEY x = ENTROPY_KEY x")
  case True
  then have "getMnemonic x = getEntropy x"
    by (simp add: fun_eq_iff getMnemonic_def getEntropy.simps)
  then show ?thesis
    by (simp add: getEntropy_twice)
next
  case keys: False
  show ?thesis
  proof (cases "getLocal (MNEMONIC_KEY x) s = None \<or> getLocal (MNEMONIC_KEY x) s = Some []")
    case False
    then obtain v where "getLocal (MNEMONIC_KEY x) s = Some v" "v \<noteq> []"
      by auto
    then have "getMnemonic x s = (Inr v, s)"
      by (simp add: getMnemonic_def getData_cached)
    then show ?thesis by simp
  next
    case fresh: True
    obtain e s1 where ent: "getEntropy x s = (Inr e, s1)" and ne: "e \<noteq> []"
      and cached: "getLocal (ENTROPY_KEY x) s1 = Some e"
      and frame: "\<forall>k. k \<noteq> ENTROPY_KEY x \<longrightarrow> getLocal k s1 = getLocal k s"
      using getEntropy_total [of x s] by blast
    have again: "getEntropy x s1 = (Inr e, s1)"
      using cached ne by (rule getEntropy_cached)
    have fresh1: "getLocal (MNEMONIC_KEY x) s1 = None \<or> getLocal (MNEMONIC_KEY x) s1 = Some []"
      using fresh frame keys by simp
    show ?thesis
    proof (cases "entropyToMnemonic x e")
      case (Inl err)
      then show ?thesis
        by (simp add: getMnemonic_fresh [OF keys fresh ent] getMnemonic_fresh [OF keys fresh1 again])
    next
      case (Inr m)
      let ?s2 = "setLocal (MNEMONIC_KEY x) m (s1\<lparr>mnemonic := Some m\<rparr>)"
      have first: "getMnemonic x s = (Inr m, ?s2)"
        using Inr by (simp add: getMnemonic_fresh [OF keys fresh ent])
      have "getMnemonic x ?s2 = (Inr m, ?s2)"
      proof (cases "m = []")
        case False
        then show ?thesis
          by (simp add: getMnemonic_def getData_cached getLocal_setLocal)
      next
        case True
        have "getLocal (ENTROPY_KEY x) ?s2 = Some e"
          using cached keys by (simp add: getLocal_def setLocal_def)
        then have ent2: "getEntropy x ?s2 = (Inr e, ?s2)"
          using ne by (rule getEntropy_cached)
        have fresh2: "getLocal (MNEMONIC_KEY x) ?s2 = None \<or> getLocal (MNEMONIC_KEY x) ?s2 = Some []"
          using True by (simp add: getLocal_setLocal)
        show ?thesis
          using Inr by (simp add: getMnemonic_fresh [OF keys fresh2 ent2]) (simp add: setLocal_def)
      qed
      with first show ?thesis by simp
    qed
  qed
qed

lemma getMnemonic_stored:
  assumes "fst (getMnemonic x s) = Inr m" and "m \<noteq> []"
  shows "getLocal (MNEMONIC_KEY x) (snd (getMnemonic x s)) = Some m"
proof (cases "getLocal (MNEMONIC_KEY x) s = None \<or> getLocal (MNEMONIC_KEY x) s = Some []")
  case False
  then obtain v where v: "getLocal (MNEMONIC_KEY x) s = Some v" "v \<noteq> []"
    by auto
  then have "getMnemonic x s = (Inr v, s)"
    by (simp add: getMnemonic_def getData_cached)
  with assms v show ?thesis by simp
next
  case fresh: True
  obtain e s1 where ent: "getEntropy x s = (Inr e, s1)"
    and cached: "getLocal (ENTROPY_KEY x) s1 = Some e"
    using getEntropy_total [of x s] by blast
  show ?thesis
  proof (cases "MNEMONIC_KEY x = ENTROPY_KEY x")
    case True
    then have "getMnemonic x s = getEntropy x s"
      by (simp add: getMnemonic_def getEntropy.simps)
    with assms ent cached True show ?thesis by simp
  next
    case False
    from assms show ?thesis
      by (auto simp add: getMnemonic_fresh [OF False fresh ent] getLocal_setLocal split: sum.splits)
  qed
qed

lemma sample_cached_storage:
  "getLocal (ENTROPY_KEY sample_ext) sample_cached = Some ''0x00000000000000000000000000000000''
   \<and> getLocal (MNEMONIC_KEY sample_ext) sample_cached =
       Some ''words(0x00000000000000000000000000000000)''"
  by code_simp

lemma sample_fresh_mnemonic:
  "fst (getMnemonic sample_ext sample_state) = Inr ''words(0x00000000000000000000000000000000)''"
  by code_simp

text \<open>
  C4. \<^verbatim>\<open>getEntropy()\<close> never throws, and what it returns is non-empty and is what the
  storage holds under the entropy key afterwards. In every state, a second
  \<^verbatim>\<open>getEntropy()\<close> returns what the first returned and leaves the state the first one
  left, and the same holds of \<^verbatim>\<open>getMnemonic()\<close>. When the storage already holds a
  non-empty value under the key, the call returns that value and the state is as before:
  no byte of the random source is consumed, no variable is assigned and nothing is
  written. A non-empty mnemonic that \<^verbatim>\<open>getMnemonic()\<close> returns is what the storage holds
  under the mnemonic key afterwards.
\<close>

theorem getEntropy_getMnemonic_idempotent:
  "(\<exists>e. fst (getEntropy x s) = Inr e \<and> e \<noteq> []
        \<and> getLocal (ENTROPY_KEY x) (snd (getEntropy x s)) = Some e)
   \<and> getEntropy x (snd (getEntropy x s)) = getEntropy x s
   \<and> getMnemonic x (snd (getMnemonic x s)) = getMnemonic x s
   \<and> (\<forall>v. getLocal (ENTROPY_KEY x) s = Some v \<longrightarrow> v \<noteq> [] \<longrightarrow> getEntropy x s = (Inr v, s))
   \<and> (\<forall>v. getLocal (MNEMONIC_KEY x) s = Some v \<longrightarrow> v \<noteq> [] \<longrightarrow> getMnemonic x s = (Inr v, s))
   \<and> (\<forall>m. fst (getMnemonic x s) = Inr m \<longrightarrow> m \<noteq> [] \<longrightarrow>
          getLocal (MNEMONIC_KEY x) (snd (getMnemonic x s)) = Some m)"
proof -
  obtain e s1 where "getEntropy x s = (Inr e, s1)" "e \<noteq> []" "getLocal (ENTROPY_KEY x) s1 = Some e"
    using getEntropy_total [of x s] by blast
  then have "\<exists>e. fst (getEntropy x s) = Inr e \<and> e \<noteq> []
      \<and> getLocal (ENTROPY_KEY x) (snd (getEntropy x s)) = Some e"
    by simp
  moreover have "\<forall>v. getLocal (MNEMONIC_KEY x) s = Some v \<longrightarrow> v \<noteq> [] \<longrightarrow>
      getMnemonic x s = (Inr v, s)"
    by (simp add: getMnemonic_def getData_cached)
  ultimately show ?thesis
    by (simp add: getEntropy_twice getMnemonic_twice getEntropy_cached getMnemonic_stored)
qed

theorem getEntropy_getMnemonic_idempotent_witness:
  "getEntropy sample_ext sample_cached =
     (Inr ''0x00000000000000000000000000000000'', sample_cached)
   \<and> getMnemonic sample_ext sample_cached =
     (Inr ''words(0x00000000000000000000000000000000)'', sample_cached)
   \<and> getLocal (MNEMONIC_KEY sample_ext) (snd (getMnemonic sample_ext sample_state)) =
     Some ''words(0x00000000000000000000000000000000)''"
proof -
  have ne: "''0x00000000000000000000000000000000'' \<noteq> []"
    "''words(0x00000000000000000000000000000000)'' \<noteq> []"
    by simp_all
  from getEntropy_getMnemonic_idempotent [of sample_ext sample_cached] sample_cached_storage ne
  have a: "getEntropy sample_ext sample_cached =
      (Inr ''0x00000000000000000000000000000000'', sample_cached)"
    and b: "getMnemonic sample_ext sample_cached =
      (Inr ''words(0x00000000000000000000000000000000)'', sample_cached)"
    by blast+
  from getEntropy_getMnemonic_idempotent [of sample_ext sample_state] sample_fresh_mnemonic ne
  have c: "getLocal (MNEMONIC_KEY sample_ext) (snd (getMnemonic sample_ext sample_state)) =
      Some ''words(0x00000000000000000000000000000000)''"
    by blast
  from a b c show ?thesis
    by blast
qed

text \<open>
  C5. A key that is neither the entropy key nor the mnemonic key, with no value in the
  storage (or the empty string), makes \<^verbatim>\<open>getData\<close> throw the unknown-key error, and
  the state, storage included, is as before.
\<close>

theorem getData_unknown_key:
  assumes "key \<noteq> ENTROPY_KEY x" and "key \<noteq> MNEMONIC_KEY x"
    and "getLocal key s = None \<or> getLocal key s = Some []"
  shows "getData x key s = (Inl (UnknownDataKey key), s)"
  using assms by (auto simp add: getData_unfold)

theorem getData_unknown_key_witness:
  "getData sample_ext ''OTHER'' sample_state = (Inl (UnknownDataKey ''OTHER''), sample_state)"
  using getData_unknown_key [of "''OTHER''" sample_ext sample_state]
  by (simp add: sample_ext_def sample_state_def init_state_def getLocal_def)

subsection \<open>The derivation path\<close>

text \<open>
  C7, as the module has it. \<^verbatim>\<open>generatePath\<close> is total and returns the template with
  the index substituted as the template literal prints it, which for a safe integer is
  its decimal digits; and it assigns that string to the module's \<^verbatim>\<open>path\<close>, leaving
  every other variable alone.
\<close>

theorem generatePath_template:
  "snd (generatePath x index s) = s\<lparr>path := Some (fst (generatePath x index s))\<rparr>
   \<and> fst (generatePath x index s) = STANDARD_PATH x @ ''/'' @ number_toString x index
   \<and> (- (2 ^ 53) < index \<and> index < 2 ^ 53 \<longrightarrow>
        fst (generatePath x index s) = STANDARD_PATH x @ ''/'' @ decimal index)"
  by (simp add: generatePath_def Let_def number_toString_def)

theorem generatePath_template_witness:
  "snd (generatePath sample_ext 17 sample_state) = sample_state\<lparr>path := Some ''m/44'/60'/0'/0/17''\<rparr>
   \<and> fst (generatePath sample_ext 17 sample_state) = ''m/44'/60'/0'/0/17''"
proof -
  note t = generatePath_template [of sample_ext 17 sample_state]
  have safe: "- (2 ^ 53) < (17::int) \<and> (17::int) < 2 ^ 53"
    by simp
  have digits: "STANDARD_PATH sample_ext @ ''/'' @ decimal 17 = ''m/44'/60'/0'/0/17''"
    by code_simp
  from t have a: "snd (generatePath sample_ext 17 sample_state) =
      sample_state\<lparr>path := Some (fst (generatePath sample_ext 17 sample_state))\<rparr>"
    by (rule conjunct1)
  from t safe have "fst (generatePath sample_ext 17 sample_state) =
      STANDARD_PATH sample_ext @ ''/'' @ decimal 17"
    by blast
  then have b: "fst (generatePath sample_ext 17 sample_state) = ''m/44'/60'/0'/0/17''"
    using digits by (rule trans)
  from a b show ?thesis
    by simp
qed

text \<open>C7 as stated fails: the module state after the call is not the state before.\<close>

theorem generatePath_writes_path:
  "snd (generatePath sample_ext 0 sample_state) \<noteq> sample_state"
proof
  assume "snd (generatePath sample_ext 0 sample_state) = sample_state"
  then have "path (snd (generatePath sample_ext 0 sample_state)) = path sample_state"
    by simp
  then show False
    by (simp add: generatePath_def Let_def sample_state_def init_state_def)
qed

subsection \<open>The active wallet\<close>

lemmas secret_simps =
  getMnemonic_def getData_unfold generateMnemonic.simps getEntropy.simps
  generateEntropy_def randomBytes_def getLocal_def setLocal_def

lemma getMnemonic_frame:
  "getMnemonic x s = (r, s1) \<Longrightarrow>
     wallet s1 = wallet s \<and> activeIndex s1 = activeIndex s \<and> activeChainId s1 = activeChainId s
     \<and> starkKeyPair s1 = starkKeyPair s \<and> path s1 = path s \<and> console s1 = console s
     \<and> sent s1 = sent s"
  by (auto simp add: secret_simps split: if_splits sum.splits prod.splits)

lemma getMnemonic_selection:
  "getMnemonic x (s\<lparr>activeIndex := i, activeChainId := c\<rparr>) =
     (fst (getMnemonic x s), (snd (getMnemonic x s))\<lparr>activeIndex := i, activeChainId := c\<rparr>)"
  by (auto simp add: secret_simps split: if_splits sum.splits prod.splits)

lemma generateWallet_Inr:
  assumes "generateWallet x i s = (Inr w, s')"
  shows "wallet s' = Some w \<and> path s' = Some (STANDARD_PATH x @ ''/'' @ number_toString x i)
     \<and> activeIndex s' = activeIndex s \<and> activeChainId s' = activeChainId s
     \<and> starkKeyPair s' = starkKeyPair s \<and> console s' = console s \<and> sent s' = sent s
     \<and> (\<exists>m. fst (getMnemonic x s) = Inr m
            \<and> fromMnemonic x m (STANDARD_PATH x @ ''/'' @ number_toString x i) = Inr w)"
proof -
  obtain r s1 where gm: "getMnemonic x s = (r, s1)"
    by (cases "getMnemonic x s")
  from assms gm obtain m where r: "r = Inr m"
    by (cases r) (simp_all add: generateWallet_def)
  from assms gm r have fm: "fromMnemonic x m (STANDARD_PATH x @ ''/'' @ number_toString x i) = Inr w"
    and s': "s' = s1\<lparr>path := Some (STANDARD_PATH x @ ''/'' @ number_toString x i), wallet := Some w\<rparr>"
    by (auto simp add: generateWallet_def generatePath_def Let_def split: sum.splits)
  from getMnemonic_frame [OF gm] s' fm gm r show ?thesis
    by simp
qed

lemma getWallet_kept:
  assumes "wallet s = Some w" and "index \<noteq> Some (activeIndex s)" and "chainId \<noteq> Some (activeChainId s)"
  shows "getWallet x index chainId s = (Inr w, s)"
  using assms by (auto simp add: getWallet.simps)

lemma getWallet_rederives:
  assumes "wallet s = None \<or> index = Some (activeIndex s) \<or> chainId = Some (activeChainId s)"
  shows "getWallet x index chainId s =
     updateWallet x (case index of None \<Rightarrow> DEFAULT_ACTIVE_INDEX x | Some i \<Rightarrow> i)
       (case chainId of None \<Rightarrow> DEFAULT_CHAIN_ID x | Some c \<Rightarrow> c) s"
  using assms by (auto simp add: getWallet.simps initWallet.simps split: option.splits)

lemma generateStarkwareKeyPair_cached:
  assumes "wallet s = Some w"
  shows "generateStarkwareKeyPair x s =
     (Inr (keyFromPrivate x (privateKey w)), s\<lparr>starkKeyPair := Some (keyFromPrivate x (privateKey w))\<rparr>)"
  using assms by (simp add: generateStarkwareKeyPair.simps getWallet_kept)

lemma updateWallet_Inr:
  assumes "updateWallet x i c s = (Inr w, s')"
  shows "wallet s' = Some w \<and> starkKeyPair s' = Some (keyFromPrivate x (privateKey w))
     \<and> activeIndex s' = i \<and> activeChainId s' = c
     \<and> path s' = Some (STANDARD_PATH x @ ''/'' @ number_toString x i)
     \<and> console s' = console s \<and> sent s' = sent s
     \<and> (\<exists>m. fst (getMnemonic x s) = Inr m
            \<and> fromMnemonic x m (STANDARD_PATH x @ ''/'' @ number_toString x i) = Inr w)"
proof -
  let ?s1 = "s\<lparr>activeIndex := i, activeChainId := c\<rparr>"
  from assms obtain cd where cd: "getChainData x c = Inr cd"
    by (cases "getChainData x c") (simp_all add: updateWallet.simps)
  obtain r s2 where gw: "generateWallet x i ?s1 = (r, s2)"
    by (cases "generateWallet x i ?s1")
  from assms cd gw obtain w2 where r: "r = Inr w2"
    by (cases r) (simp_all add: updateWallet.simps)
  note g = generateWallet_Inr [OF gw [unfolded r]]
  from g have w2: "wallet s2 = Some w2" by simp
  let ?kp = "keyFromPrivate x (privateKey w2)"
  have kp: "generateStarkwareKeyPair x s2 = (Inr ?kp, s2\<lparr>starkKeyPair := Some ?kp\<rparr>)"
    using w2 by (rule generateStarkwareKeyPair_cached)
  from assms cd gw r kp w2 have "w = w2" and "s' = s2\<lparr>starkKeyPair := Some ?kp\<rparr>"
    by (auto simp add: updateWallet.simps split: sum.splits)
  with g show ?thesis
    by (simp add: getMnemonic_selection)
qed

lemma sample_getWallet_default:
  "getWallet sample_ext None None sample_state =
     (Inr \<lparr>privateKey = ''key(m/44'/60'/0'/0/0)'', address = ''address(m/44'/60'/0'/0/0)''\<rparr>,
      snd (getWallet sample_ext None None sample_state))"
proof -
  have "fst (getWallet sample_ext None None sample_state) =
      Inr \<lparr>privateKey = ''key(m/44'/60'/0'/0/0)'', address = ''address(m/44'/60'/0'/0/0)''\<rparr>"
    by code_simp
  then show ?thesis
    by (metis prod.collapse)
qed

text \<open>
  C3. When \<^verbatim>\<open>getWallet(index, chainId)\<close> re-derives and returns, the cached wallet is
  the one returned, derived from the mnemonic at the path of the active index, the
  active index and chain are the requested ones (the defaults where undefined), and the
  cached STARK key pair is made from that wallet's private key.
\<close>

theorem getWallet_rederive_consistent:
  assumes "wallet s = None \<or> index = Some (activeIndex s) \<or> chainId = Some (activeChainId s)"
    and "getWallet x index chainId s = (Inr w, s')"
  shows "wallet s' = Some w
     \<and> starkKeyPair s' = Some (keyFromPrivate x (privateKey w))
     \<and> activeIndex s' = (case index of None \<Rightarrow> DEFAULT_ACTIVE_INDEX x | Some i \<Rightarrow> i)
     \<and> activeChainId s' = (case chainId of None \<Rightarrow> DEFAULT_CHAIN_ID x | Some c \<Rightarrow> c)
     \<and> path s' = Some (STANDARD_PATH x @ ''/'' @ number_toString x (activeIndex s'))
     \<and> (\<exists>m. fst (getMnemonic x s) = Inr m
            \<and> fromMnemonic x m (STANDARD_PATH x @ ''/'' @ number_toString x (activeIndex s')) = Inr w)"
proof -
  let ?i = "case index of None \<Rightarrow> DEFAULT_ACTIVE_INDEX x | Some i \<Rightarrow> i"
  let ?c = "case chainId of None \<Rightarrow> DEFAULT_CHAIN_ID x | Some c \<Rightarrow> c"
  have "updateWallet x ?i ?c s = (Inr w, s')"
    using assms by (simp add: getWallet_rederives)
  from updateWallet_Inr [OF this] show ?thesis
    by simp
qed

theorem getWallet_rederive_consistent_witness:
  "wallet (snd (getWallet sample_ext None None sample_state)) =
     Some \<lparr>privateKey = ''key(m/44'/60'/0'/0/0)'', address = ''address(m/44'/60'/0'/0/0)''\<rparr>
   \<and> starkKeyPair (snd (getWallet sample_ext None None sample_state)) =
     Some ''stark(key(m/44'/60'/0'/0/0))''
   \<and> activeIndex (snd (getWallet sample_ext None None sample_state)) = 0
   \<and> activeChainId (snd (getWallet sample_ext None None sample_state)) = 1"
proof -
  have none: "wallet sample_state = None \<or> None = Some (activeIndex sample_state)
      \<or> None = Some (activeChainId sample_state)"
    by (simp add: sample_state_def init_state_def)
  from getWallet_rederive_consistent [OF none sample_getWallet_default] show ?thesis
    by (simp add: sample_ext_def)
qed

lemma sample_cached_wallet:
  "wallet sample_cached =
     Some \<lparr>privateKey = ''key(m/44'/60'/0'/0/0)'', address = ''address(m/44'/60'/0'/0/0)''\<rparr>"
  by code_simp

lemma sample_cached_selection: "activeIndex sample_cached = 0 \<and> activeChainId sample_cached = 1"
  by code_simp

text \<open>
  C1 does not hold of the module: \<^verbatim>\<open>getWallet\<close> compares with \<^verbatim>\<open>===\<close>, so it
  re-derives when the requested index or chain equals the active one, and keeps the
  cached wallet when both differ. With the wallet of index 0 on chain 1 cached,
  \<^verbatim>\<open>getWallet(5, 3)\<close> returns the wallet of index 0 and changes nothing.
\<close>

theorem getWallet_keeps_wallet_of_other_index:
  "getWallet sample_ext (Some 5) (Some 3) sample_cached =
     (Inr \<lparr>privateKey = ''key(m/44'/60'/0'/0/0)'', address = ''address(m/44'/60'/0'/0/0)''\<rparr>,
      sample_cached)
   \<and> activeIndex sample_cached = 0 \<and> activeChainId sample_cached = 1"
  using getWallet_kept [OF sample_cached_wallet, of "Some 5" "Some 3" sample_ext]
  by (simp add: sample_cached_selection)

text \<open>
  What the guard on line 30 does in general: \<^verbatim>\<open>getWallet\<close> goes through
  \<^verbatim>\<open>updateWallet\<close> when no wallet is cached or the index or the chain asked for is the
  active one, and returns the cached wallet untouched when a wallet is cached and both
  differ.
\<close>

lemma getWallet_guard:
  "(wallet s = None \<or> index = Some (activeIndex s) \<or> chainId = Some (activeChainId s) \<longrightarrow>
      getWallet x index chainId s =
        updateWallet x (case index of None \<Rightarrow> DEFAULT_ACTIVE_INDEX x | Some i \<Rightarrow> i)
          (case chainId of None \<Rightarrow> DEFAULT_CHAIN_ID x | Some c \<Rightarrow> c) s)
   \<and> (\<forall>w. wallet s = Some w \<longrightarrow> index \<noteq> Some (activeIndex s) \<longrightarrow>
          chainId \<noteq> Some (activeChainId s) \<longrightarrow> getWallet x index chainId s = (Inr w, s))"
  by (simp add: getWallet_rederives getWallet_kept)

lemma getAccounts_loop_Inr:
  assumes "getAccounts_loop x count i accounts s = (Inr accs, s')" and "i < count"
  shows "(\<exists>s0 w. generateWallet x (count - 1) s0 = (Inr w, s') \<and> last accs = address w)
     \<and> activeIndex s' = activeIndex s \<and> activeChainId s' = activeChainId s
     \<and> starkKeyPair s' = starkKeyPair s
     \<and> length accs = length accounts + nat (count - i)"
  using assms
proof (induction x count i accounts s rule: getAccounts_loop.induct)
  case (1 x count i accounts s)
  obtain r s1 where gw: "generateWallet x i s = (r, s1)"
    by (cases "generateWallet x i s")
  from "1.prems" gw obtain w where r: "r = Inr w"
    by (cases r) (simp_all add: getAccounts_loop.simps [of x count i])
  note g = generateWallet_Inr [OF gw [unfolded r]]
  from "1.prems" gw r
  have rest: "getAccounts_loop x count (i + 1) (accounts @ [address w]) s1 = (Inr accs, s')"
    by (simp add: getAccounts_loop.simps [of x count i])
  show ?case
  proof (cases "i + 1 < count")
    case True
    from "1.IH" [OF "1.prems"(2) gw [symmetric] r rest True] g "1.prems"(2) True
    show ?thesis
      by (simp add: nat_diff_distrib)
  next
    case False
    with "1.prems"(2) have i: "i = count - 1"
      by simp
    from rest False have "accs = accounts @ [address w]" and "s' = s1"
      by (simp_all add: getAccounts_loop.simps [of x count "i + 1"])
    with g gw r i "1.prems"(2) show ?thesis
      by auto
  qed
qed

lemma sample_getAccounts:
  "getAccounts sample_ext (Some 2) sample_cached =
     (Inr [''address(m/44'/60'/0'/0/0)'', ''address(m/44'/60'/0'/0/1)''],
      snd (getAccounts sample_ext (Some 2) sample_cached))"
proof -
  have "fst (getAccounts sample_ext (Some 2) sample_cached) =
      Inr [''address(m/44'/60'/0'/0/0)'', ''address(m/44'/60'/0'/0/1)'']"
    by code_simp
  then show ?thesis
    by (metis prod.collapse)
qed

lemma sample_cached_starkKeyPair:
  "starkKeyPair sample_cached = Some ''stark(key(m/44'/60'/0'/0/0))''"
  by code_simp

lemma sample_getAccounts_wallet:
  "wallet (snd (getAccounts sample_ext (Some 2) sample_cached)) =
     Some \<lparr>privateKey = ''key(m/44'/60'/0'/0/1)'', address = ''address(m/44'/60'/0'/0/1)''\<rparr>"
  by code_simp

text \<open>
  C10. When \<^verbatim>\<open>getAccounts(count)\<close> returns, for a count of at least one, the module's
  wallet is the one \<^verbatim>\<open>generateWallet(count - 1)\<close> derived, its address is the last of
  the list, and the active index, the active chain and the STARK key pair are what they
  were. In the example the wallet is then that of index 1, while the active index is
  still 0 and the STARK key pair still the one made from the key of index 0.
\<close>

theorem getAccounts_overwrites_wallet:
  assumes "1 \<le> count" and "getAccounts x (Some count) s = (Inr accounts, s')"
  shows "(\<exists>s0 w. generateWallet x (count - 1) s0 = (Inr w, s') \<and> wallet s' = Some w
            \<and> last accounts = address w)
     \<and> path s' = Some (STANDARD_PATH x @ ''/'' @ number_toString x (count - 1))
     \<and> activeIndex s' = activeIndex s \<and> activeChainId s' = activeChainId s
     \<and> starkKeyPair s' = starkKeyPair s
     \<and> length accounts = nat count"
proof -
  from assms have loop: "getAccounts_loop x count 0 [] s = (Inr accounts, s')" and pos: "0 < count"
    by (simp_all add: getAccounts_def)
  from getAccounts_loop_Inr [OF loop pos]
  obtain s0 w where gw: "generateWallet x (count - 1) s0 = (Inr w, s')"
    and l: "last accounts = address w"
    and frame: "activeIndex s' = activeIndex s" "activeChainId s' = activeChainId s"
      "starkKeyPair s' = starkKeyPair s" "length accounts = nat count"
    by auto
  from generateWallet_Inr [OF gw] gw l frame show ?thesis
    by auto
qed

theorem getAccounts_overwrites_wallet_witness:
  "wallet (snd (getAccounts sample_ext (Some 2) sample_cached)) =
     Some \<lparr>privateKey = ''key(m/44'/60'/0'/0/1)'', address = ''address(m/44'/60'/0'/0/1)''\<rparr>
   \<and> path (snd (getAccounts sample_ext (Some 2) sample_cached)) = Some ''m/44'/60'/0'/0/1''
   \<and> activeIndex (snd (getAccounts sample_ext (Some 2) sample_cached)) = 0
   \<and> activeChainId (snd (getAccounts sample_ext (Some 2) sample_cached)) = 1
   \<and> starkKeyPair (snd (getAccounts sample_ext (Some 2) sample_cached)) =
       Some ''stark(key(m/44'/60'/0'/0/0))''"
proof -
  let ?s' = "snd (getAccounts sample_ext (Some 2) sample_cached)"
  have "(1::int) \<le> 2" by simp
  from getAccounts_overwrites_wallet [OF this sample_getAccounts]
  have p: "path ?s' = Some (STANDARD_PATH sample_ext @ ''/'' @ number_toString sample_ext (2 - 1))"
    and frame: "activeIndex ?s' = activeIndex sample_cached"
      "activeChainId ?s' = activeChainId sample_cached"
      "starkKeyPair ?s' = starkKeyPair sample_cached"
    by blast+
  have "STANDARD_PATH sample_ext @ ''/'' @ number_toString sample_ext (2 - 1) = ''m/44'/60'/0'/0/1''"
    by code_simp
  with p frame show ?thesis
    by (simp add: sample_getAccounts_wallet sample_cached_selection sample_cached_starkKeyPair)
qed

text \<open>
  C9. \<^verbatim>\<open>isWalletActive\<close> returns null in every state: the null wallet itself when none
  is cached, and the constant null when one is.
\<close>

theorem isWalletActive_always_null: "isWalletActive s = None"
  by (simp add: isWalletActive_def split: option.split)

subsection \<open>The signing functions\<close>

lemma starkwareSign_derives:
  assumes "wallet s = None" and "starkKeyPair s = None"
  shows "starkwareSign x m s =
     (case updateWallet x (DEFAULT_ACTIVE_INDEX x) (DEFAULT_CHAIN_ID x) s of
        (Inl e, s1) \<Rightarrow> (Inl e, s1)
      | (Inr w, s1) \<Rightarrow>
          (case stark_sign x (keyFromPrivate x (privateKey w)) m of
             Inl e \<Rightarrow> (Inl e, s1)
           | Inr sg \<Rightarrow> (Inr (Some sg), s1)))"
proof -
  let ?u = "updateWallet x (DEFAULT_ACTIVE_INDEX x) (DEFAULT_CHAIN_ID x) s"
  have gw: "getWallet x None None s = ?u"
    using assms(1) by (simp add: getWallet_rederives)
  obtain r s1 where u: "?u = (r, s1)"
    by (cases ?u)
  show ?thesis
  proof (cases r)
    case (Inl e)
    with u gw assms(2) show ?thesis
      by (simp add: starkwareSign_def getStakwareKeyPair_def generateStarkwareKeyPair.simps)
  next
    case (Inr w)
    from updateWallet_Inr [OF u [unfolded Inr]]
    have "starkKeyPair s1 = Some (keyFromPrivate x (privateKey w))"
      by simp
    then have "s1\<lparr>starkKeyPair := Some (keyFromPrivate x (privateKey w))\<rparr> = s1"
      by simp
    with u gw assms(2) Inr show ?thesis
      by (simp add: starkwareSign_def getStakwareKeyPair_def generateStarkwareKeyPair.simps
          split: sum.splits)
  qed
qed

lemma starkwareVerify_derives:
  assumes "wallet s = None" and "starkKeyPair s = None"
  shows "starkwareVerify x m sg s =
     (case updateWallet x (DEFAULT_ACTIVE_INDEX x) (DEFAULT_CHAIN_ID x) s of
        (Inl e, s1) \<Rightarrow> (Inl e, s1)
      | (Inr w, s1) \<Rightarrow>
          (case stark_verify x (keyFromPrivate x (privateKey w)) m sg of
             Inl e \<Rightarrow> (Inl e, s1)
           | Inr ok \<Rightarrow> (Inr (Some ok), s1)))"
proof -
  let ?u = "updateWallet x (DEFAULT_ACTIVE_INDEX x) (DEFAULT_CHAIN_ID x) s"
  have gw: "getWallet x None None s = ?u"
    using assms(1) by (simp add: getWallet_rederives)
  obtain r s1 where u: "?u = (r, s1)"
    by (cases ?u)
  show ?thesis
  proof (cases r)
    case (Inl e)
    with u gw assms(2) show ?thesis
      by (simp add: starkwareVerify_def getStakwareKeyPair_def generateStarkwareKeyPair.simps)
  next
    case (Inr w)
    from updateWallet_Inr [OF u [unfolded Inr]]
    have "starkKeyPair s1 = Some (keyFromPrivate x (privateKey w))"
      by simp
    then have "s1\<lparr>starkKeyPair := Some (keyFromPrivate x (privateKey w))\<rparr> = s1"
      by simp
    with u gw assms(2) Inr show ?thesis
      by (simp add: starkwareVerify_def getStakwareKeyPair_def generateStarkwareKeyPair.simps
          split: sum.splits)
  qed
qed

lemma stark_never_null:
  "fst (starkwareSign x m s) \<noteq> Inr None \<and> fst (starkwareVerify x m sg s) \<noteq> Inr None"
  by (simp add: starkwareSign_def starkwareVerify_def split: prod.splits sum.splits)

text \<open>
  C2, as the module has it. With no wallet cached, \<^verbatim>\<open>sendTransaction\<close>,
  \<^verbatim>\<open>signTransaction\<close>, \<^verbatim>\<open>signMessage\<close> and \<^verbatim>\<open>signPersonalMessage\<close> log
  \<^verbatim>\<open>No Active Account\<close>, return null and change nothing else. \<^verbatim>\<open>starkwareSign\<close> and
  \<^verbatim>\<open>starkwareVerify\<close> never return null: with no STARK key pair either, they derive
  the default account and its key pair through \<^verbatim>\<open>updateWallet\<close> and return what the
  STARK library answers with that key pair, or throw what the derivation or the library
  throws.
\<close>

theorem signing_without_wallet:
  assumes "wallet s = None"
  shows "sendTransaction x t s = (Inr None, console_error ''No Active Account'' s)
     \<and> signTransaction x d s = (Inr None, console_error ''No Active Account'' s)
     \<and> signMessage x m s = (Inr None, console_error ''No Active Account'' s)
     \<and> signPersonalMessage x m s = (Inr None, console_error ''No Active Account'' s)
     \<and> fst (starkwareSign x m s) \<noteq> Inr None
     \<and> fst (starkwareVerify x m sg s) \<noteq> Inr None
     \<and> (starkKeyPair s = None \<longrightarrow>
          starkwareSign x m s =
            (case updateWallet x (DEFAULT_ACTIVE_INDEX x) (DEFAULT_CHAIN_ID x) s of
               (Inl e, s1) \<Rightarrow> (Inl e, s1)
             | (Inr w, s1) \<Rightarrow>
                 (case stark_sign x (keyFromPrivate x (privateKey w)) m of
                    Inl e \<Rightarrow> (Inl e, s1)
                  | Inr r \<Rightarrow> (Inr (Some r), s1)))
          \<and> starkwareVerify x m sg s =
            (case updateWallet x (DEFAULT_ACTIVE_INDEX x) (DEFAULT_CHAIN_ID x) s of
               (Inl e, s1) \<Rightarrow> (Inl e, s1)
             | (Inr w, s1) \<Rightarrow>
                 (case stark_verify x (keyFromPrivate x (privateKey w)) m sg of
                    Inl e \<Rightarrow> (Inl e, s1)
                  | Inr ok \<Rightarrow> (Inr (Some ok), s1))))"
  using assms stark_never_null [of x m s sg]
  by (simp add: sendTransaction_def signTransaction_def signMessage_def signPersonalMessage_def
      starkwareSign_derives starkwareVerify_derives)

theorem signing_without_wallet_witness:
  "sendTransaction sample_ext [(''gas'', JNum 21000)] sample_state =
     (Inr None, console_error ''No Active Account'' sample_state)
   \<and> signTransaction sample_ext None sample_state =
     (Inr None, console_error ''No Active Account'' sample_state)
   \<and> signMessage sample_ext (JStr ''0x00'') sample_state =
     (Inr None, console_error ''No Active Account'' sample_state)
   \<and> signPersonalMessage sample_ext (JStr ''0x00'') sample_state =
     (Inr None, console_error ''No Active Account'' sample_state)
   \<and> fst (starkwareSign sample_ext (JStr ''0x00'') sample_state) \<noteq> Inr None
   \<and> starkwareSign sample_ext (JStr ''0x00'') sample_state =
       (case updateWallet sample_ext (DEFAULT_ACTIVE_INDEX sample_ext) (DEFAULT_CHAIN_ID sample_ext)
               sample_state of
          (Inl e, s1) \<Rightarrow> (Inl e, s1)
        | (Inr w, s1) \<Rightarrow>
            (case stark_sign sample_ext (keyFromPrivate sample_ext (privateKey w)) (JStr ''0x00'') of
               Inl e \<Rightarrow> (Inl e, s1)
             | Inr r \<Rightarrow> (Inr (Some r), s1)))"
proof -
  have w: "wallet sample_state = None" and k: "starkKeyPair sample_state = None"
    by (simp_all add: sample_state_def init_state_def)
  from signing_without_wallet [OF w, of sample_ext "[(''gas'', JNum 21000)]" None "JStr ''0x00''" JNull] k
  show ?thesis
    by blast
qed

text \<open>
  C2 as stated fails for \<^verbatim>\<open>starkwareSign\<close>: in the freshly loaded module it returns
  a signature and leaves the default account cached.
\<close>

theorem starkwareSign_without_wallet_signs:
  "wallet sample_state = None
   \<and> fst (starkwareSign sample_ext (JStr ''msg'') sample_state) =
       Inr (Some ''starksig(stark(key(m/44'/60'/0'/0/0)))'')
   \<and> wallet (snd (starkwareSign sample_ext (JStr ''msg'') sample_state)) =
       Some \<lparr>privateKey = ''key(m/44'/60'/0'/0/0)'', address = ''address(m/44'/60'/0'/0/0)''\<rparr>"
  by code_simp

lemma get_prop_delete_other: "k \<noteq> k' \<Longrightarrow> get_prop (delete_prop k' t) k = get_prop t k"
  by (simp add: get_prop_def delete_prop_def delete_conv')

lemma get_prop_set_same: "get_prop (set_prop k v t) k = v"
  by (simp add: get_prop_def set_prop_def update_conv')

lemma map_of_delete_other: "k \<noteq> k' \<Longrightarrow> map_of (delete_prop k' t) k = map_of t k"
  by (simp add: delete_prop_def delete_conv')

lemma map_of_set_other: "k \<noteq> k' \<Longrightarrow> map_of (set_prop k' v t) k = map_of t k"
  by (simp add: set_prop_def update_conv')

lemma has_key_map_of: "has_key k t = (map_of t k \<noteq> None)"
  by (simp add: has_key_def map_of_eq_None_iff)

lemma has_key_delete: "has_key k (delete_prop k' t) = (k \<noteq> k' \<and> has_key k t)"
  by (auto simp add: has_key_map_of delete_prop_def delete_conv')

lemma has_key_set: "has_key k (set_prop k' v t) = (k = k' \<or> has_key k t)"
  by (auto simp add: has_key_map_of set_prop_def update_conv')

text \<open>
  C6, as the module has it. With a wallet cached, a transaction that has a \<^verbatim>\<open>gas\<close>
  key and whose \<^verbatim>\<open>from\<close> is falsy or a string is handed to \<^verbatim>\<open>wallet.sendTransaction\<close>
  with \<^verbatim>\<open>gasLimit\<close> set to the value of \<^verbatim>\<open>gas\<close> and without the \<^verbatim>\<open>gas\<close> key. A
  truthy \<^verbatim>\<open>from\<close> is removed; a \<^verbatim>\<open>from\<close> key with a falsy value stays.
\<close>

theorem sendTransaction_normalizes:
  assumes "wallet s = Some w" and "has_key ''gas'' t"
    and "\<not> truthy (get_prop t ''from'') \<or> (\<exists>f. get_prop t ''from'' = JStr f)"
  shows "\<exists>t'. sent (snd (sendTransaction x t s)) = sent s @ [(w, t')]
     \<and> fst (sendTransaction x t s) =
          (case wallet_sendTransaction x w t' of Inl e \<Rightarrow> Inl e | Inr r \<Rightarrow> Inr (Some (hash r)))
     \<and> has_key ''gasLimit'' t' \<and> get_prop t' ''gasLimit'' = get_prop t ''gas''
     \<and> \<not> has_key ''gas'' t'
     \<and> (truthy (get_prop t ''from'') \<longrightarrow> \<not> has_key ''from'' t')
     \<and> (\<not> truthy (get_prop t ''from'') \<longrightarrow> map_of t' ''from'' = map_of t ''from'')"
proof -
  let ?t1 = "if truthy (get_prop t ''from'') then delete_prop ''from'' t else t"
  let ?t2 = "delete_prop ''gas'' (set_prop ''gasLimit'' (get_prop ?t1 ''gas'') ?t1)"
  have gas1: "has_key ''gas'' ?t1"
    using assms(2) by (simp add: has_key_delete)
  have run: "sent (snd (sendTransaction x t s)) = sent s @ [(w, ?t2)]
     \<and> fst (sendTransaction x t s) =
          (case wallet_sendTransaction x w ?t2 of Inl e \<Rightarrow> Inl e | Inr r \<Rightarrow> Inr (Some (hash r)))"
    using assms(1,3) gas1
    by (auto simp add: sendTransaction_def Let_def console_error_def split: sum.splits)
  have props: "has_key ''gasLimit'' ?t2 \<and> get_prop ?t2 ''gasLimit'' = get_prop t ''gas''
     \<and> \<not> has_key ''gas'' ?t2
     \<and> (truthy (get_prop t ''from'') \<longrightarrow> \<not> has_key ''from'' ?t2)
     \<and> (\<not> truthy (get_prop t ''from'') \<longrightarrow> map_of ?t2 ''from'' = map_of t ''from'')"
    by (simp add: has_key_delete has_key_set get_prop_delete_other get_prop_set_same
        map_of_delete_other map_of_set_other)
  from run props show ?thesis
    by blast
qed

theorem sendTransaction_normalizes_witness:
  "\<exists>t'. sent (snd (sendTransaction sample_ext
                 [(''from'', JStr ''0xABC''), (''gas'', JNum 21000)] sample_cached)) =
            sent sample_cached @
              [(\<lparr>privateKey = ''key(m/44'/60'/0'/0/0)'', address = ''address(m/44'/60'/0'/0/0)''\<rparr>, t')]
     \<and> has_key ''gasLimit'' t' \<and> get_prop t' ''gasLimit'' = JNum 21000
     \<and> \<not> has_key ''gas'' t' \<and> \<not> has_key ''from'' t'"
proof -
  let ?t = "[(''from'', JStr ''0xABC''), (''gas'', JNum 21000)]"
  have gas: "has_key ''gas'' ?t"
    by (simp add: has_key_def)
  have sender: "get_prop ?t ''from'' = JStr ''0xABC''" and g: "get_prop ?t ''gas'' = JNum 21000"
    by (simp_all add: get_prop_def)
  then have ok: "\<not> truthy (get_prop ?t ''from'') \<or> (\<exists>f. get_prop ?t ''from'' = JStr f)"
    by simp
  from sendTransaction_normalizes [OF sample_cached_wallet gas ok, of sample_ext] sender g
  show ?thesis
    by auto
qed

text \<open>
  C6 as stated fails for a \<^verbatim>\<open>from\<close> that is the empty string: the transaction handed
  on still has the key.
\<close>

theorem sendTransaction_keeps_falsy_from:
  "sent (snd (sendTransaction sample_ext [(''from'', JStr []), (''gas'', JNum 21000)] sample_cached)) =
     [(\<lparr>privateKey = ''key(m/44'/60'/0'/0/0)'', address = ''address(m/44'/60'/0'/0/0)''\<rparr>,
       [(''from'', JStr []), (''gasLimit'', JNum 21000)])]
   \<and> fst (sendTransaction sample_ext [(''from'', JStr []), (''gas'', JNum 21000)] sample_cached) =
       Inr (Some ''0xhash'')"
  by code_simp

text \<open>
  C8. With a wallet cached, \<^verbatim>\<open>signPersonalMessage\<close> hands \<^verbatim>\<open>wallet.signMessage\<close> the
  bytes \<^verbatim>\<open>arrayify\<close> reads from the message when \<^verbatim>\<open>isHexString\<close> holds of it, and
  the message itself otherwise; the result is the library's, and the state is unchanged.
\<close>

theorem signPersonalMessage_detects_hex:
  assumes "wallet s = Some w"
  shows "(isHexString x m \<longrightarrow>
            (\<forall>bs. arrayify x m = Inr bs \<longrightarrow>
               signPersonalMessage x m s =
                 (case wallet_signMessage x w (Inl bs) of
                    Inl e \<Rightarrow> Inl e | Inr r \<Rightarrow> Inr (Some r), s)))
     \<and> (\<not> isHexString x m \<longrightarrow>
            signPersonalMessage x m s =
              (case wallet_signMessage x w (Inr m) of
                 Inl e \<Rightarrow> Inl e | Inr r \<Rightarrow> Inr (Some r), s))"
  using assms by (auto simp add: signPersonalMessage_def split: sum.splits)

theorem signPersonalMessage_detects_hex_witness:
  "signPersonalMessage sample_ext (JStr ''0x6869'') sample_cached =
     (Inr (Some ''personal(key(m/44'/60'/0'/0/0), bytes 0x6869)''), sample_cached)
   \<and> signPersonalMessage sample_ext (JStr ''hi'') sample_cached =
     (Inr (Some ''personal(key(m/44'/60'/0'/0/0), text hi)''), sample_cached)"
proof -
  have hex: "isHexString sample_ext (JStr ''0x6869'')"
    and bytes: "arrayify sample_ext (JStr ''0x6869'') = Inr [0x68, 0x69]"
    and plain: "\<not> isHexString sample_ext (JStr ''hi'')"
    by code_simp+
  have sg: "wallet_signMessage sample_ext
        \<lparr>privateKey = ''key(m/44'/60'/0'/0/0)'', address = ''address(m/44'/60'/0'/0/0)''\<rparr>
        (Inl [0x68, 0x69]) = Inr ''personal(key(m/44'/60'/0'/0/0), bytes 0x6869)''"
    and st: "wallet_signMessage sample_ext
        \<lparr>privateKey = ''key(m/44'/60'/0'/0/0)'', address = ''address(m/44'/60'/0'/0/0)''\<rparr>
        (Inr (JStr ''hi'')) = Inr ''personal(key(m/44'/60'/0'/0/0), text hi)''"
    by code_simp+
  from signPersonalMessage_detects_hex [OF sample_cached_wallet, of sample_ext "JStr ''0x6869''"]
    hex bytes sg
  have a: "signPersonalMessage sample_ext (JStr ''0x6869'') sample_cached =
     (Inr (Some ''personal(key(m/44'/60'/0'/0/0), bytes 0x6869)''), sample_cached)"
    by simp
  from signPersonalMessage_detects_hex [OF sample_cached_wallet, of sample_ext "JStr ''hi''"]
    plain st
  have b: "signPersonalMessage sample_ext (JStr ''hi'') sample_cached =
     (Inr (Some ''personal(key(m/44'/60'/0'/0/0), text hi)''), sample_cached)"
    by simp
  from a b show ?thesis ..
qed

end
